theory Spec2Isabelle
  imports
    Complex_Main
    "HOL-Library.AList"
    "HOL-Library.Char_ord"
    "HOL-Library.List_Lexorder"
    "HOL-Library.Product_Lexorder"
    "HOL-Library.Sublist"
begin

section \<open>The sales report pipeline of \<^verbatim>\<open>sales_report.py\<close>\<close>

text \<open>
  The script reads a spreadsheet into a pandas DataFrame, adds the canonical columns
  \<^verbatim>\<open>date\<close>, \<^verbatim>\<open>sales\<close> and \<^verbatim>\<open>product\<close> to it
  (\<^verbatim>\<open>read_sales_excel\<close>), and reduces it to two summary tables
  (\<^verbatim>\<open>summarize_by_product\<close>, \<^verbatim>\<open>summarize_by_month\<close>).

  The model starts after line 45 of the script: the frame has been read and its column names
  are stripped and lower-cased. Column names are taken to be pairwise distinct, as
  \<^verbatim>\<open>read_excel\<close> delivers them. Numbers are exact rationals: the rounding,
  infinities and NaN arithmetic of IEEE floats are outside the model.
\<close>

subsection \<open>Cells, frames and errors\<close>

text \<open>A calendar date is (year, month, day); tuples are ordered lexicographically.\<close>

type_synonym date = "int \<times> nat \<times> nat"

text \<open>
  A cell of a DataFrame: the missing value (NaN, None and NaT alike), a number, a text or a
  timestamp.
\<close>

datatype cell = Null | Num rat | Str string | Stamp date

text \<open>
  A DataFrame is the ordered list of its columns, each a name with one cell per row.
\<close>

type_synonym frame = "(string \<times> cell list) list"

definition columns :: "frame \<Rightarrow> string list" where
  "columns df = map fst df"

text \<open>
  \<^verbatim>\<open>df[c]\<close> for a name that is present. The script only reads names it has just
  found in \<^verbatim>\<open>df.columns\<close>; the model gives the empty column otherwise.
\<close>

definition col :: "frame \<Rightarrow> string \<Rightarrow> cell list" where
  "col df c = (case map_of df c of None \<Rightarrow> [] | Some vs \<Rightarrow> vs)"

text \<open>
  \<^verbatim>\<open>df[c] = vs\<close>: an existing column is replaced where it stands, a new one is
  appended after the last column.
\<close>

definition set_col :: "string \<Rightarrow> cell list \<Rightarrow> frame \<Rightarrow> frame" where
  "set_col c vs df = AList.update c vs df"


text \<open>
  The three \<^verbatim>\<open>ValueError\<close>s that \<^verbatim>\<open>read_sales_excel\<close> raises itself, the
  error \<^verbatim>\<open>pd.to_datetime\<close> raises on a value it cannot parse, the
  \<^verbatim>\<open>KeyError\<close> of a missing column and, for the summaries, data whose treatment by
  pandas is not modelled (a text in \<^verbatim>\<open>sales\<close>, a number in \<^verbatim>\<open>product\<close>:
  \<^verbatim>\<open>read_sales_excel\<close> produces neither).
\<close>

datatype error =
    NoDateColumn
  | NoSalesColumns
  | NoProductColumn
  | DateParseError
  | KeyError string
  | Unsupported

text \<open>The specification's \<^verbatim>\<open>SchemaError\<close> and \<^verbatim>\<open>DataError\<close>.\<close>

fun is_schema_error :: "error \<Rightarrow> bool" where
  "is_schema_error NoDateColumn = True"
| "is_schema_error NoSalesColumns = True"
| "is_schema_error NoProductColumn = True"
| "is_schema_error _ = False"


subsection \<open>The conversions of pandas\<close>

text \<open>
  What pandas does with a text or with a value of another type is library code; the model
  takes it as a parameter \<open>L\<close>. The cases that do not depend on parsing are fixed below: a
  missing value stays missing, a timestamp is a date already, a number is numeric already,
  a text is its own text.
\<close>

datatype dt_result = Raises | NaT | At date

record pandas =
  parse_date :: "string \<Rightarrow> dt_result"
  number_date :: "rat \<Rightarrow> dt_result"
  parse_number :: "string \<Rightarrow> rat option"
  date_number :: "date \<Rightarrow> rat option"
  repr :: "cell \<Rightarrow> string"

text \<open>\<^verbatim>\<open>pd.to_datetime\<close> on one value.\<close>

fun to_datetime :: "pandas \<Rightarrow> cell \<Rightarrow> dt_result" where
  "to_datetime L Null = NaT"
| "to_datetime L (Stamp d) = At d"
| "to_datetime L (Str s) = parse_date L s"
| "to_datetime L (Num r) = number_date L r"

fun stamp :: "dt_result \<Rightarrow> cell" where
  "stamp (At d) = Stamp d"
| "stamp _ = Null"

text \<open>
  \<^verbatim>\<open>pd.to_datetime\<close> on a column: one value that cannot be parsed raises for the whole
  column (\<open>None\<close>).
\<close>

definition to_datetime_col :: "pandas \<Rightarrow> cell list \<Rightarrow> cell list option" where
  "to_datetime_col L cs =
     (if list_ex (\<lambda>c. to_datetime L c = Raises) cs then None
      else Some (map (\<lambda>c. stamp (to_datetime L c)) cs))"

text \<open>
  \<^verbatim>\<open>pd.to_numeric(..., errors='coerce')\<close> on one value: \<open>None\<close> is NaN.
\<close>

fun to_numeric :: "pandas \<Rightarrow> cell \<Rightarrow> rat option" where
  "to_numeric L Null = None"
| "to_numeric L (Num r) = Some r"
| "to_numeric L (Str s) = parse_number L s"
| "to_numeric L (Stamp d) = date_number L d"

text \<open>\<^verbatim>\<open>pd.to_numeric(..., errors='coerce').fillna(0)\<close> on one value and on a column.\<close>

definition coerce :: "pandas \<Rightarrow> cell \<Rightarrow> rat" where
  "coerce L c = (case to_numeric L c of None \<Rightarrow> 0 | Some r \<Rightarrow> r)"

definition coerce_col :: "pandas \<Rightarrow> cell list \<Rightarrow> cell list" where
  "coerce_col L cs = map (\<lambda>c. Num (coerce L c)) cs"

text \<open>\<^verbatim>\<open>astype(str)\<close> on one value.\<close>

fun astype_str :: "pandas \<Rightarrow> cell \<Rightarrow> cell" where
  "astype_str L (Str s) = Str s"
| "astype_str L c = Str (repr L c)"

text \<open>The product of two numeric columns, row by row; NaN where a factor is not a number.\<close>

fun mul_cell :: "cell \<Rightarrow> cell \<Rightarrow> cell" where
  "mul_cell (Num a) (Num b) = Num (a * b)"
| "mul_cell _ _ = Null"

definition mul_col :: "cell list \<Rightarrow> cell list \<Rightarrow> cell list" where
  "mul_col xs ys = map2 mul_cell xs ys"

subsection \<open>Column resolution\<close>

text \<open>Python's \<^verbatim>\<open>sub in s\<close> on strings.\<close>

fun contains :: "string \<Rightarrow> string \<Rightarrow> bool" where
  "contains sub [] = (sub = [])"
| "contains sub (c # cs) = (prefix sub (c # cs) \<or> contains sub cs)"

definition is_date_name :: "string \<Rightarrow> bool" where
  "is_date_name c = (contains ''date'' c \<or> contains ''data'' c)"

definition is_qty_name :: "string \<Rightarrow> bool" where
  "is_qty_name c = (contains ''qty'' c \<or> contains ''quantity'' c \<or> contains ''quantidade'' c)"

definition is_price_name :: "string \<Rightarrow> bool" where
  "is_price_name c = (contains ''price'' c \<or> contains ''preco'' c \<or> contains ''valor_unit'' c)"

definition is_other_name :: "string \<Rightarrow> bool" where
  "is_other_name c = (c \<in> set [''amount'', ''valor_total'', ''total''])"

definition is_product_name :: "string \<Rightarrow> bool" where
  "is_product_name c = (contains ''product'' c \<or> contains ''produto'' c \<or> contains ''item'' c)"

text \<open>
  The way the sales value is obtained (lines 55 to 72): from one column, or as the product
  of a quantity and a price column.
\<close>

datatype sales_path = Direct string | QtyPrice string string

text \<open>
  The conditions of the \<^verbatim>\<open>if\<close> chain of lines 55 to 72, which read the column names
  only. \<open>None\<close> is the \<^verbatim>\<open>raise\<close> of line 72.
\<close>

definition resolve_sales :: "string list \<Rightarrow> sales_path option" where
  "resolve_sales cols =
     (if ''sales'' \<in> set cols \<or> ''valor'' \<in> set cols
      then Some (Direct (if ''sales'' \<in> set cols then ''sales'' else ''valor''))
      else
        (case (filter is_qty_name cols, filter is_price_name cols) of
           (q # _, p # _) \<Rightarrow> Some (QtyPrice q p)
         | _ \<Rightarrow>
           (case filter is_other_name cols of
              other # _ \<Rightarrow> Some (Direct other)
            | [] \<Rightarrow> None)))"

subsection \<open>\<^verbatim>\<open>read_sales_excel\<close>\<close>

text \<open>Lines 48 to 52: the date column.\<close>

definition assign_date :: "pandas \<Rightarrow> frame \<Rightarrow> error + frame" where
  "assign_date L df =
     (case filter is_date_name (columns df) of
        [] \<Rightarrow> Inl NoDateColumn
      | d # _ \<Rightarrow>
        (case to_datetime_col L (col df d) of
           None \<Rightarrow> Inl DateParseError
         | Some ts \<Rightarrow> Inr (set_col ''date'' ts df)))"

text \<open>
  Lines 55 to 72: the sales column. In the quantity and price branch the three assignments
  run in the order of the script, each reading the frame the previous one left.
\<close>

definition assign_sales :: "pandas \<Rightarrow> frame \<Rightarrow> error + frame" where
  "assign_sales L df =
     (case resolve_sales (columns df) of
        None \<Rightarrow> Inl NoSalesColumns
      | Some (Direct s) \<Rightarrow> Inr (set_col ''sales'' (coerce_col L (col df s)) df)
      | Some (QtyPrice q p) \<Rightarrow>
          (let df1 = set_col ''quantity'' (coerce_col L (col df q)) df;
               df2 = set_col ''price'' (coerce_col L (col df1 p)) df1
           in Inr (set_col ''sales'' (mul_col (col df2 ''quantity'') (col df2 ''price'')) df2)))"

text \<open>Lines 75 to 79: the product column.\<close>

definition assign_product :: "pandas \<Rightarrow> frame \<Rightarrow> error + frame" where
  "assign_product L df =
     (case filter is_product_name (columns df) of
        [] \<Rightarrow> Inl NoProductColumn
      | p # _ \<Rightarrow> Inr (set_col ''product'' (map (astype_str L) (col df p)) df))"

definition read_sales_excel :: "pandas \<Rightarrow> frame \<Rightarrow> error + frame" where
  "read_sales_excel L df0 =
     (case assign_date L df0 of
        Inl e \<Rightarrow> Inl e
      | Inr df1 \<Rightarrow>
        (case assign_sales L df1 of
           Inl e \<Rightarrow> Inl e
         | Inr df2 \<Rightarrow> assign_product L df2))"

subsection \<open>The summaries\<close>

text \<open>The sum of the values of the rows whose key is \<open>k\<close>.\<close>

definition group_total :: "'k list \<Rightarrow> rat list \<Rightarrow> 'k \<Rightarrow> rat" where
  "group_total ks vs k = sum_list (map snd (filter (\<lambda>r. fst r = k) (zip ks vs)))"

text \<open>
  \<^verbatim>\<open>groupby(key)[value].sum().reset_index()\<close>: one row per key that is not missing, in
  ascending key order (\<^verbatim>\<open>sort=True\<close> is the default of \<^verbatim>\<open>groupby\<close>).
\<close>

definition groupby_sum :: "('k::linorder) option list \<Rightarrow> rat list \<Rightarrow> ('k \<times> rat) list" where
  "groupby_sum ks vs =
     map (\<lambda>k. (k, group_total ks vs (Some k))) (sort (remdups (List.map_filter id ks)))"

text \<open>
  With \<^verbatim>\<open>dropna=False\<close> the rows whose key is missing form one more group, after the
  others.
\<close>

definition null_group :: "'k option list \<Rightarrow> rat list \<Rightarrow> ('k option \<times> rat) list" where
  "null_group ks vs = (if None \<in> set ks then [(None, group_total ks vs None)] else [])"

text \<open>
  The values of a \<^verbatim>\<open>sales\<close> column as \<^verbatim>\<open>sum\<close> takes them: a missing value is
  skipped, that is, counts as 0.
\<close>

fun sales_value :: "cell \<Rightarrow> rat option" where
  "sales_value (Num r) = Some r"
| "sales_value Null = Some 0"
| "sales_value _ = None"

definition sales_values :: "cell list \<Rightarrow> rat list option" where
  "sales_values cs =
     (if list_all (\<lambda>c. sales_value c \<noteq> None) cs
      then Some (map (\<lambda>c. case sales_value c of None \<Rightarrow> 0 | Some r \<Rightarrow> r) cs) else None)"

text \<open>The keys of a \<^verbatim>\<open>product\<close> column: texts, or missing.\<close>

fun product_key :: "cell \<Rightarrow> string option option" where
  "product_key (Str s) = Some (Some s)"
| "product_key Null = Some None"
| "product_key _ = None"

definition product_keys :: "cell list \<Rightarrow> string option list option" where
  "product_keys cs =
     (if list_all (\<lambda>c. product_key c \<noteq> None) cs
      then Some (map (\<lambda>c. case product_key c of None \<Rightarrow> None | Some k \<Rightarrow> k) cs) else None)"

text \<open>
  Lines 83 to 90. \<^verbatim>\<open>sort_values('sales', ascending=False)\<close> is taken as a stable sort
  on the negated sum, which is what pandas does on the short tables numpy sorts by
  insertion.
\<close>

definition summarize_by_product :: "frame \<Rightarrow> error + (string option \<times> rat) list" where
  "summarize_by_product df =
     (case map_of df ''product'' of
        None \<Rightarrow> Inl (KeyError ''product'')
      | Some ps \<Rightarrow>
        (case map_of df ''sales'' of
           None \<Rightarrow> Inl (KeyError ''sales'')
         | Some ss \<Rightarrow>
           (case (product_keys ps, sales_values ss) of
              (Some ks, Some vs) \<Rightarrow>
                Inr (sort_key (\<lambda>r. - snd r)
                       (map (\<lambda>r. (Some (fst r), snd r)) (groupby_sum ks vs) @ null_group ks vs))
            | _ \<Rightarrow> Inl Unsupported)))"

text \<open>\<^verbatim>\<open>.dt.to_period('M').dt.to_timestamp()\<close>: the first day of the month.\<close>

fun month_start :: "cell \<Rightarrow> cell" where
  "month_start (Stamp (y, m, d)) = Stamp (y, m, 1)"
| "month_start c = c"

fun month_key :: "cell \<Rightarrow> date option" where
  "month_key (Stamp d) = Some d"
| "month_key _ = None"

text \<open>
  Lines 92 to 99. The function assigns the column \<^verbatim>\<open>month\<close> of the frame it is given,
  so the model returns the frame as the call leaves it, next to the result. The
  \<^verbatim>\<open>groupby\<close> of line 98 keeps the default \<^verbatim>\<open>dropna=True\<close>: rows without a month
  are in no group.
\<close>

definition summarize_by_month ::
    "pandas \<Rightarrow> frame \<Rightarrow> string \<Rightarrow> frame \<times> (error + (date \<times> rat) list)" where
  "summarize_by_month L df date_col =
     (case map_of df date_col of
        None \<Rightarrow> (df, Inl (KeyError date_col))
      | Some ds \<Rightarrow>
        (case to_datetime_col L ds of
           None \<Rightarrow> (df, Inl DateParseError)
         | Some ts \<Rightarrow>
           (let df' = set_col ''month'' (map month_start ts) df
            in (df',
                case map_of df' ''sales'' of
                  None \<Rightarrow> Inl (KeyError ''sales'')
                | Some ss \<Rightarrow>
                  (case sales_values ss of
                     None \<Rightarrow> Inl Unsupported
                   | Some vs \<Rightarrow>
                       Inr (sort_key fst
                              (groupby_sum (map month_key (col df' ''month'')) vs)))))))"

subsection \<open>The pipeline\<close>

text \<open>
  Lines 232 to 237 of \<^verbatim>\<open>main\<close>: the two tables the charts and the document are built
  from. An error of any stage ends the run before a document is written. Rendering is not
  modelled.
\<close>

definition main :: "pandas \<Rightarrow> frame \<Rightarrow> error + ((string option \<times> rat) list \<times> (date \<times> rat) list)" where
  "main L df0 =
     (case read_sales_excel L df0 of
        Inl e \<Rightarrow> Inl e
      | Inr df \<Rightarrow>
        (case summarize_by_product df of
           Inl e \<Rightarrow> Inl e
         | Inr products \<Rightarrow>
           (case snd (summarize_by_month L df ''date'') of
              Inl e \<Rightarrow> Inl e
            | Inr monthly \<Rightarrow> Inr (products, monthly))))"

subsection \<open>Concrete conversions for the examples\<close>

text \<open>
  The closed examples below need conversions that compute. \<open>iso\<close> covers the values that
  occur in them: ISO dates \<^verbatim>\<open>YYYY-MM-DD\<close>, the empty text (which
  \<^verbatim>\<open>pd.to_datetime\<close> reads as missing) and plain decimal literals. Every other text is
  unparsable for it, as \<^verbatim>\<open>abc\<close> is for pandas. Numbers read as dates, dates read as
  numbers and the texts of values other than the missing one do not occur in the examples;
  \<open>iso\<close> fills them with a fixed answer. The general theorems hold for every \<open>L\<close>.
\<close>

fun nat_of_digits :: "nat \<Rightarrow> string \<Rightarrow> nat option" where
  "nat_of_digits acc [] = Some acc"
| "nat_of_digits acc (c # cs) =
     (if CHR ''0'' \<le> c \<and> c \<le> CHR ''9''
      then nat_of_digits (10 * acc + (of_char c - 48)) cs else None)"

definition number_of :: "string \<Rightarrow> nat option" where
  "number_of s = (if s = [] then None else nat_of_digits 0 s)"

definition days_in_month :: "nat \<Rightarrow> nat \<Rightarrow> nat" where
  "days_in_month y m =
     (if m \<in> set [4, 6, 9, 11] then 30
      else if m = 2 then (if y mod 4 = 0 \<and> (y mod 100 \<noteq> 0 \<or> y mod 400 = 0) then 29 else 28)
      else 31)"

definition iso_date :: "string \<Rightarrow> dt_result" where
  "iso_date s =
     (if s = [] then NaT
      else if length s = 10 \<and> s ! 4 = CHR ''-'' \<and> s ! 7 = CHR ''-''
      then
        (case (number_of (take 4 s), number_of (take 2 (drop 5 s)), number_of (drop 8 s)) of
           (Some y, Some m, Some d) \<Rightarrow>
             (if 1 \<le> m \<and> m \<le> 12 \<and> 1 \<le> d \<and> d \<le> days_in_month y m
              then At (int y, m, d) else Raises)
         | _ \<Rightarrow> Raises)
      else Raises)"

definition decimal :: "string \<Rightarrow> rat option" where
  "decimal s =
     (let neg = (s \<noteq> [] \<and> hd s = CHR ''-'');
          body = (if neg then tl s else s);
          ip = takeWhile (\<lambda>c. c \<noteq> CHR ''.'') body;
          fp = drop (Suc (length ip)) body
      in case (number_of ip, if fp = [] then Some 0 else number_of fp) of
           (Some a, Some b) \<Rightarrow>
             (let r = of_nat a + of_nat b / 10 ^ length fp in Some (if neg then - r else r))
         | _ \<Rightarrow> None)"

definition iso :: pandas where
  "iso = \<lparr> parse_date = iso_date,
           number_date = (\<lambda>r. Raises),
           parse_number = decimal,
           date_number = (\<lambda>d. None),
           repr = (\<lambda>c. ''nan'') \<rparr>"

subsection \<open>Example tables\<close>

text \<open>Small tables for the closed examples of the properties below.\<close>

definition no_date_table :: frame where
  "no_date_table = [(''product'', [Str ''Meia'']), (''sales'', [Num 99])]"

definition two_date_table :: frame where
  "two_date_table =
     [(''order_date'', [Str ''2025-01-05'']), (''data'', [Str ''2025-03-01'']),
      (''item'', [Str ''Meia'']), (''total'', [Num 99])]"









definition missing_date_table :: frame where
  "missing_date_table =
     [(''date'', [Stamp (2025, 1, 5), Null]),
      (''product'', [Str ''Meia'', Str ''Bermuda'']),
      (''sales'', [Num 10, Num 5])]"

section \<open>Properties\<close>

subsection \<open>Frames\<close>

lemma map_of_set_col:
  "map_of (set_col c vs df) c' = (if c' = c then Some vs else map_of df c')"
  by (simp add: set_col_def update_conv')

lemma col_set_col: "col (set_col c vs df) c' = (if c' = c then vs else col df c')"
  by (simp add: col_def map_of_set_col)



subsection \<open>Substring tests and first matches\<close>

text \<open>\<open>contains\<close> is the substring test: \<open>sub\<close> occurs in \<open>s\<close> as a contiguous block.\<close>

lemma contains_iff: "contains sub s \<longleftrightarrow> (\<exists>ps ss. s = ps @ sub @ ss)"
proof (induction s)
  case Nil
  then show ?case by auto
next
  case (Cons c cs)
  have "(\<exists>ps ss. c # cs = ps @ sub @ ss) \<longleftrightarrow> prefix sub (c # cs) \<or> (\<exists>ps ss. cs = ps @ sub @ ss)"
    (is "?l \<longleftrightarrow> ?r")
  proof
    assume ?l
    then obtain ps ss where eq: "c # cs = ps @ sub @ ss" by blast
    show ?r
    proof (cases ps)
      case Nil
      with eq show ?thesis by (auto simp: prefix_def)
    next
      case (Cons p ps')
      with eq have "cs = ps' @ sub @ ss" by simp
      then show ?thesis by blast
    qed
  next
    assume ?r
    then show ?l
    proof
      assume "prefix sub (c # cs)"
      then obtain ss where "c # cs = sub @ ss" by (auto simp: prefix_def)
      then have "c # cs = [] @ sub @ ss" by simp
      then show ?l by blast
    next
      assume "\<exists>ps ss. cs = ps @ sub @ ss"
      then obtain ps ss where "cs = ps @ sub @ ss" by blast
      then have "c # cs = (c # ps) @ sub @ ss" by simp
      then show ?l by blast
    qed
  qed
  with Cons show ?case by simp
qed

text \<open>
  \<^verbatim>\<open>[c for c in df.columns if p(c)][0]\<close> is the first column, in table order, that
  satisfies \<open>p\<close>.
\<close>

lemma find_filter: "find P xs = (case filter P xs of [] \<Rightarrow> None | x # _ \<Rightarrow> Some x)"
  by (induction xs) auto


subsection \<open>The priority of the sales paths\<close>



subsection \<open>The steps of \<^verbatim>\<open>read_sales_excel\<close>\<close>





lemma map_of_assign_sales:
  assumes "assign_sales L df = Inr df'" "c \<noteq> ''sales''" "c \<noteq> ''quantity''" "c \<noteq> ''price''"
  shows "map_of df' c = map_of df c"
  using assms unfolding assign_sales_def
  by (auto simp: map_of_set_col Let_def split: option.splits sales_path.splits)

lemma map_of_assign_product:
  assumes "assign_product L df = Inr df'" "c \<noteq> ''product''"
  shows "map_of df' c = map_of df c"
  using assms unfolding assign_product_def
  by (auto simp: map_of_set_col split: list.splits)

lemma assign_date_cases:
  "assign_date L df =
     (case find is_date_name (columns df) of
        None \<Rightarrow> Inl NoDateColumn
      | Some d \<Rightarrow>
        (if list_ex (\<lambda>c. to_datetime L c = Raises) (col df d) then Inl DateParseError
         else Inr (set_col ''date'' (map (\<lambda>c. stamp (to_datetime L c)) (col df d)) df)))"
  unfolding assign_date_def find_filter to_datetime_col_def
  by (simp split: list.splits)

lemma assign_sales_error: "assign_sales L df = Inl e \<Longrightarrow> e = NoSalesColumns"
  unfolding assign_sales_def by (auto simp: Let_def split: option.splits sales_path.splits)

lemma assign_product_error: "assign_product L df = Inl e \<Longrightarrow> e = NoProductColumn"
  unfolding assign_product_def by (auto split: list.splits)


lemma assign_sales_Some:
  "resolve_sales (columns df) = Some p \<Longrightarrow> \<exists>df'. assign_sales L df = Inr df'"
  unfolding assign_sales_def by (cases p) (simp_all add: Let_def)

lemma read_sales_excel_steps:
  assumes "read_sales_excel L df = Inr df'"
  shows "\<exists>d ts df2. find is_date_name (columns df) = Some d
           \<and> to_datetime_col L (col df d) = Some ts
           \<and> assign_sales L (set_col ''date'' ts df) = Inr df2
           \<and> assign_product L df2 = Inr df'"
  using assms
  by (auto simp: read_sales_excel_def assign_date_cases to_datetime_col_def
           split: option.splits if_splits sum.splits)

lemma read_sales_excel_date:
  assumes "read_sales_excel L df = Inr df'"
  shows "\<exists>d ts. find is_date_name (columns df) = Some d
           \<and> to_datetime_col L (col df d) = Some ts \<and> map_of df' ''date'' = Some ts"
proof -
  from read_sales_excel_steps [OF assms] obtain d ts df2
    where d: "find is_date_name (columns df) = Some d"
      and ts: "to_datetime_col L (col df d) = Some ts"
      and s: "assign_sales L (set_col ''date'' ts df) = Inr df2"
      and p: "assign_product L df2 = Inr df'"
    by blast
  have "map_of df' ''date'' = map_of df2 ''date''"
    using map_of_assign_product [OF p] by simp
  also have "\<dots> = map_of (set_col ''date'' ts df) ''date''"
    using map_of_assign_sales [OF s] by simp
  also have "\<dots> = Some ts" by (simp add: map_of_set_col)
  finally show ?thesis using d ts by blast
qed

lemma read_sales_excel_no_date:
  "find is_date_name (columns df) = None \<Longrightarrow> read_sales_excel L df = Inl NoDateColumn"
  by (simp add: read_sales_excel_def assign_date_cases)









subsection \<open>The date column\<close>

text \<open>
  Claim C9. A table in which no column name contains \<^verbatim>\<open>date\<close> or \<^verbatim>\<open>data\<close>
  fails with the schema error of the missing date column, and the run ends without a
  document. When such a column exists, the first one in table order is the date column: the
  \<^verbatim>\<open>date\<close> column of the result holds its parsed values.
\<close>

theorem missing_date_column:
  "(find is_date_name (columns df) = None \<longrightarrow>
      read_sales_excel L df = Inl NoDateColumn \<and> main L df = Inl NoDateColumn
      \<and> is_schema_error NoDateColumn)
   \<and> (find is_date_name (columns df) = Some d \<longrightarrow>
        read_sales_excel L df \<noteq> Inl NoDateColumn
        \<and> (\<forall>df'. read_sales_excel L df = Inr df' \<longrightarrow>
              map_of df' ''date'' = to_datetime_col L (col df d)))"
proof (intro conjI impI allI)
  assume "find is_date_name (columns df) = None"
  then show r: "read_sales_excel L df = Inl NoDateColumn"
    by (rule read_sales_excel_no_date)
  then show "main L df = Inl NoDateColumn" by (simp add: main_def)
  show "is_schema_error NoDateColumn" by simp
next
  assume d: "find is_date_name (columns df) = Some d"
  show "read_sales_excel L df \<noteq> Inl NoDateColumn"
  proof
    assume "read_sales_excel L df = Inl NoDateColumn"
    with d show False
      by (auto simp: read_sales_excel_def assign_date_cases
               split: if_splits sum.splits dest: assign_sales_error assign_product_error)
  qed
next
  fix df'
  assume d: "find is_date_name (columns df) = Some d"
    and r: "read_sales_excel L df = Inr df'"
  from read_sales_excel_date [OF r] d
  show "map_of df' ''date'' = to_datetime_col L (col df d)" by auto
qed

theorem missing_date_column_witness:
  "read_sales_excel iso no_date_table = Inl NoDateColumn
   \<and> main iso no_date_table = Inl NoDateColumn
   \<and> (\<exists>df'. read_sales_excel iso two_date_table = Inr df'
          \<and> map_of df' ''date'' = Some [Stamp (2025, 1, 5)])"
proof -
  have n: "find is_date_name (columns no_date_table) = None"
    unfolding no_date_table_def by code_simp
  have f: "find is_date_name (columns two_date_table) = Some ''order_date''"
    unfolding two_date_table_def by code_simp
  have c: "to_datetime_col iso (col two_date_table ''order_date'') = Some [Stamp (2025, 1, 5)]"
    unfolding two_date_table_def by code_simp
  have "\<not> isl (read_sales_excel iso two_date_table)"
    unfolding two_date_table_def by code_simp
  then obtain df' where r: "read_sales_excel iso two_date_table = Inr df'"
    by (cases "read_sales_excel iso two_date_table") auto
  note t = missing_date_column [where df = two_date_table and d = "''order_date''" and L = iso]
  from t f r have "map_of df' ''date'' = to_datetime_col iso (col two_date_table ''order_date'')"
    by blast
  with c r have 2: "\<exists>df'. read_sales_excel iso two_date_table = Inr df'
      \<and> map_of df' ''date'' = Some [Stamp (2025, 1, 5)]"
    by simp
  from missing_date_column [where df = no_date_table and L = iso] n
  have 1: "read_sales_excel iso no_date_table = Inl NoDateColumn
      \<and> main iso no_date_table = Inl NoDateColumn"
    by blast
  from 1 2 show ?thesis by blast
qed

subsection \<open>Unparsable dates\<close>



subsection \<open>The order of the schema checks\<close>




subsection \<open>The sales column\<close>












subsection \<open>The sign of the sales values\<close>






subsection \<open>What the summaries do to the table\<close>




subsection \<open>Total sales across the two groupings\<close>

text \<open>
  Claim C3 asks that the product sums and the month sums of a table add up to the same
  total. The two functions differ in one argument: line 88 groups with
  \<^verbatim>\<open>dropna=False\<close>, line 98 with the default, which drops the rows whose month is
  missing. A row with an empty date cell (read as NaT without an error) is counted in the
  product summary and in no month.
\<close>

theorem totals_differ_on_missing_date:
  "main iso missing_date_table
     = Inr ([(Some ''Meia'', 10), (Some ''Bermuda'', 5)], [((2025, 1, 1), 10)])
   \<and> sum_list (map snd [(Some ''Meia'', 10 :: rat), (Some ''Bermuda'', 5)]) = 15
   \<and> sum_list (map snd [((2025, 1, 1) :: date, 10 :: rat)]) = 10"
  unfolding missing_date_table_def by code_simp

subsection \<open>The order of the product summary\<close>


text \<open>The summary of a table whose products are texts and whose sales are numbers.\<close>

lemma product_keys_text: "product_keys (map Str names) = Some (map Some names)"
  by (simp add: product_keys_def list_all_iff)

lemma sales_values_nums: "sales_values (map Num vals) = Some vals"
  by (simp add: sales_values_def list_all_iff map_idI)

lemma null_group_text: "null_group (map Some names) vals = []"
  by (auto simp: null_group_def)








subsection \<open>Totals when no date is missing\<close>

text \<open>
  Where no date is missing the two totals agree: each summary adds up to the total of the
  sales column.
\<close>

lemma sum_list_insort_key:
  fixes g :: "'a \<Rightarrow> rat"
  shows "sum_list (map g (insort_key f x xs)) = g x + sum_list (map g xs)"
  by (induction xs) (auto simp: ac_simps)

lemma sum_list_sort_key:
  fixes g :: "'a \<Rightarrow> rat"
  shows "sum_list (map g (sort_key f xs)) = sum_list (map g xs)"
  by (induction xs) (auto simp: sum_list_insort_key)

lemma sum_group_rows:
  fixes rows :: "('k option \<times> rat) list"
  assumes "finite S"
  shows "(\<Sum>k\<in>S. sum_list (map snd (filter (\<lambda>r. fst r = Some k) rows)))
         = sum_list (map snd (filter (\<lambda>r. fst r \<in> Some ` S) rows))"
proof (induction rows)
  case Nil
  show ?case by simp
next
  case (Cons r rows)
  have "(\<Sum>k\<in>S. sum_list (map snd (filter (\<lambda>r. fst r = Some k) (r # rows))))
      = (\<Sum>k\<in>S. (if fst r = Some k then snd r else 0)
                  + sum_list (map snd (filter (\<lambda>r. fst r = Some k) rows)))"
    by (rule sum.cong) auto
  also have "\<dots> = (\<Sum>k\<in>S. if fst r = Some k then snd r else 0)
      + (\<Sum>k\<in>S. sum_list (map snd (filter (\<lambda>r. fst r = Some k) rows)))"
    by (rule sum.distrib)
  also have "(\<Sum>k\<in>S. if fst r = Some k then snd r else 0)
      = (if fst r \<in> Some ` S then snd r else 0)"
  proof (cases "fst r")
    case None
    then show ?thesis by auto
  next
    case (Some a)
    have "(\<Sum>k\<in>S. if Some a = Some k then snd r else 0) = (\<Sum>k\<in>S. if a = k then snd r else 0)"
      by (rule sum.cong) auto
    also have "\<dots> = (if a \<in> S then snd r else 0)"
      using assms by (simp add: sum.delta')
    finally show ?thesis using Some by auto
  qed
  finally show ?case using Cons.IH by simp
qed

lemma set_map_filter_id: "set (List.map_filter id ks) = {k. Some k \<in> set ks}"
  by (induction ks) (auto simp: List.map_filter_simps split: option.splits)

lemma sum_groupby_sum:
  "sum_list (map snd (groupby_sum ks vs))
   = sum_list (map snd (filter (\<lambda>r. fst r \<noteq> None) (zip ks vs)))"
proof -
  let ?K = "sort (remdups (List.map_filter id ks))"
  have "sum_list (map snd (groupby_sum ks vs))
      = sum_list (map (\<lambda>k. group_total ks vs (Some k)) ?K)"
    by (simp add: groupby_sum_def o_def)
  also have "\<dots> = (\<Sum>k\<in>set ?K. group_total ks vs (Some k))"
    by (rule sum_list_distinct_conv_sum_set) simp
  also have "\<dots> = sum_list (map snd (filter (\<lambda>r. fst r \<in> Some ` set ?K) (zip ks vs)))"
    unfolding group_total_def by (rule sum_group_rows) simp
  also have "filter (\<lambda>r. fst r \<in> Some ` set ?K) (zip ks vs)
      = filter (\<lambda>r. fst r \<noteq> None) (zip ks vs)"
    by (rule filter_cong) (auto simp: set_map_filter_id dest: set_zip_leftD)
  finally show ?thesis .
qed

lemma sum_groupby_sum_present:
  assumes "length ks = length vs"
  shows "sum_list (map snd (groupby_sum (map Some ks) vs)) = sum_list vs"
proof -
  have "filter (\<lambda>r. fst r \<noteq> None) (zip (map Some ks) vs) = zip (map Some ks) vs"
    by (rule filter_True) (auto dest!: set_zip_leftD)
  with assms show ?thesis by (simp add: sum_groupby_sum)
qed

lemma to_datetime_col_stamps: "to_datetime_col L (map Stamp ds) = Some (map Stamp ds)"
  by (simp add: to_datetime_col_def list_ex_iff o_def)

lemma month_key_month_start:
  "month_key (month_start (Stamp d)) = Some (fst d, fst (snd d), 1)"
  by (cases d) auto

lemma totals_agree_without_missing_dates:
  assumes p: "map_of df ''product'' = Some (map Str names)"
    and s: "map_of df ''sales'' = Some (map Num vals)"
    and d: "map_of df ''date'' = Some (map Stamp dates)"
    and ln: "length names = length vals" and ld: "length dates = length vals"
  shows "\<exists>products monthly. summarize_by_product df = Inr products
           \<and> snd (summarize_by_month L df ''date'') = Inr monthly
           \<and> sum_list (map snd products) = sum_list vals
           \<and> sum_list (map snd monthly) = sum_list vals"
proof -
  let ?products = "sort_key (\<lambda>r. - snd r)
      (map (\<lambda>r. (Some (fst r), snd r)) (groupby_sum (map Some names) vals)
       @ null_group (map Some names) vals)"
  let ?months = "map (\<lambda>d. (fst d, fst (snd d), 1 :: nat)) dates"
  let ?monthly = "sort_key fst (groupby_sum (map Some ?months) vals)"
  have 1: "summarize_by_product df = Inr ?products"
    using p s by (simp add: summarize_by_product_def product_keys_text sales_values_nums)
  have 2: "snd (summarize_by_month L df ''date'') = Inr ?monthly"
    using s d
    by (simp add: summarize_by_month_def to_datetime_col_stamps Let_def map_of_set_col
          col_set_col sales_values_nums month_key_month_start o_def)
  have 3: "sum_list (map snd ?products) = sum_list vals"
    using sum_groupby_sum_present [OF ln]
    by (simp add: sum_list_sort_key null_group_text o_def)
  have 4: "sum_list (map snd ?monthly) = sum_list vals"
    using sum_groupby_sum_present [of ?months vals] ld
    by (simp add: sum_list_sort_key)
  from 1 2 3 4 show ?thesis by blast
qed

subsection \<open>The round trip of the sample rows\<close>

text \<open>
  Claim C7. The rows (2025-01-05, Camiseta, 3, 49.90) and (2025-02-02, Camiseta, 2, 49.90),
  given with a quantity and a price column, yield the product summary
  [(Camiseta, 249.50)] and the month summary [(2025-01-01, 149.70), (2025-02-01, 99.80)].
\<close>

theorem round_trip_camiseta:
  "main iso
     [(''date'', [Str ''2025-01-05'', Str ''2025-02-02'']),
      (''product'', [Str ''Camiseta'', Str ''Camiseta'']),
      (''quantity'', [Num 3, Num 2]),
      (''price'', [Num (499 / 10), Num (499 / 10)])]
   = Inr ([(Some ''Camiseta'', 499 / 2)],
          [((2025, 1, 1), 1497 / 10), ((2025, 2, 1), 499 / 5)])"
  by code_simp

end
